theory Spec2Isabelle
  imports Complex_Main
begin

section \<open>Data model\<close>

text \<open>
  The embedding follows \<^verbatim>\<open>gestureService.ts\<close> (class \<^verbatim>\<open>GestureService\<close>) and the scene
  module (classes \<^verbatim>\<open>Particle\<close> and \<^verbatim>\<open>ChristmasScene\<close>). JavaScript numbers are modelled
  as mathematical reals (no rounding, no NaN); array indices and \<^verbatim>\<open>originIndex\<close> are
  naturals. Reading an array out of range gives \<^verbatim>\<open>undefined\<close> in JavaScript, and
  reading a property of \<^verbatim>\<open>undefined\<close> throws a TypeError: that is the only exception
  the modelled code can raise.
\<close>

datatype SceneMode = TREE | SCATTER | FOCUS

datatype error = TypeError

text \<open>
  A landmark of the hand tracker: an object with numeric fields \<^verbatim>\<open>x\<close>, \<^verbatim>\<open>y\<close>, \<^verbatim>\<open>z\<close>.
  The field names carry a prefix so that they do not capture the variables x, y, z.
\<close>

record Landmark =
  lx :: real
  ly :: real
  lz :: real

record PalmCenter =
  px :: real
  py :: real

record GestureData =
  gesture_mode :: SceneMode
  palmCenter :: "PalmCenter option"

text \<open>JavaScript \<^verbatim>\<open>xs[i]\<close>: \<^verbatim>\<open>undefined\<close> (here \<open>None\<close>) outside the array.\<close>

definition js_index :: "'a list \<Rightarrow> int \<Rightarrow> 'a option" where
  "js_index xs i = (if 0 \<le> i \<and> i < int (length xs) then Some (xs ! nat i) else None)"

text \<open>\<^verbatim>\<open>Math.hypot(a, b, c)\<close> on three arguments.\<close>

definition Math_hypot :: "real \<Rightarrow> real \<Rightarrow> real \<Rightarrow> real" where
  "Math_hypot a b c = sqrt (a\<^sup>2 + b\<^sup>2 + c\<^sup>2)"

section \<open>Gesture classifier\<close>

text \<open>
  \<^verbatim>\<open>f => Math.hypot(f.x - wrist.x, f.y - wrist.y, f.z - wrist.z)\<close>, the callback of the
  \<^verbatim>\<open>map\<close> in \<^verbatim>\<open>processGestures\<close>; it throws when \<^verbatim>\<open>f\<close> or \<^verbatim>\<open>wrist\<close> is undefined.
\<close>

definition wristDist :: "Landmark option \<Rightarrow> Landmark option \<Rightarrow> real option" where
  "wristDist wrist f =
     (case (f, wrist) of
        (Some g, Some w) \<Rightarrow> Some (Math_hypot (lx g - lx w) (ly g - ly w) (lz g - lz w))
      | _ \<Rightarrow> None)"

text \<open>
  \<^verbatim>\<open>GestureService.processGestures\<close>. The six landmarks are read first (a read out of
  range does not throw); the pinch test only touches \<^verbatim>\<open>thumb\<close> and \<^verbatim>\<open>index\<close> and returns
  before the wrist and the other fingertips are used.
\<close>

definition processGestures :: "Landmark list \<Rightarrow> error + SceneMode" where
  "processGestures landmarks =
     (let thumb = js_index landmarks 4;
          index = js_index landmarks 8;
          wrist = js_index landmarks 0;
          fingers = [js_index landmarks 12, js_index landmarks 16, js_index landmarks 20]
      in case (thumb, index) of
           (Some th, Some ix) \<Rightarrow>
             (let pinchDist = Math_hypot (lx th - lx ix) (ly th - ly ix) (lz th - lz ix)
              in if pinchDist < 0.05 then Inr FOCUS
                 else (case those (map (wristDist wrist) (index # fingers)) of
                         None \<Rightarrow> Inl TypeError
                       | Some dists \<Rightarrow>
                           (let avgDist = foldl (+) 0 dists / real (length dists)
                            in if avgDist < 0.25 then Inr TREE
                               else if avgDist > 0.4 then Inr SCATTER
                               else Inr TREE)))
         | _ \<Rightarrow> Inl TypeError)"

text \<open>
  \<^verbatim>\<open>GestureService.predict\<close>, one invocation. The arguments are what the method reads
  from its environment: whether \<^verbatim>\<open>this.landmarker\<close> is set, \<^verbatim>\<open>this.video.readyState\<close>, and
  the \<^verbatim>\<open>landmarks\<close> field of the detector's result (\<open>None\<close> when the field is missing).
  The result is what is passed to \<^verbatim>\<open>onUpdate\<close>: \<open>Inr None\<close> when the tick is skipped and
  nothing is emitted, \<open>Inl\<close> when the body throws before emitting.
\<close>

definition predict :: "bool \<Rightarrow> nat \<Rightarrow> Landmark list list option \<Rightarrow> error + GestureData option" where
  "predict landmarker_set readyState results_landmarks =
     (if \<not> landmarker_set \<or> readyState < 2 then Inr None
      else case results_landmarks of
             Some (landmarks # rest) \<Rightarrow>
               (case processGestures landmarks of
                  Inl e \<Rightarrow> Inl e
                | Inr m \<Rightarrow>
                    (case js_index landmarks 9 of
                       None \<Rightarrow> Inl TypeError
                     | Some l9 \<Rightarrow>
                         Inr (Some \<lparr>gesture_mode = m,
                                    palmCenter = Some \<lparr>px = lx l9, py = ly l9\<rparr>\<rparr>)))
           | _ \<Rightarrow> Inr (Some \<lparr>gesture_mode = TREE, palmCenter = None\<rparr>))"

text \<open>The quantities the classifier compares with its thresholds, on a full landmark set.\<close>

definition pinchDistance :: "Landmark list \<Rightarrow> real" where
  "pinchDistance landmarks =
     Math_hypot (lx (landmarks ! 4) - lx (landmarks ! 8))
                (ly (landmarks ! 4) - ly (landmarks ! 8))
                (lz (landmarks ! 4) - lz (landmarks ! 8))"

definition tipToWrist :: "Landmark list \<Rightarrow> nat \<Rightarrow> real" where
  "tipToWrist landmarks i =
     Math_hypot (lx (landmarks ! i) - lx (landmarks ! 0))
                (ly (landmarks ! i) - ly (landmarks ! 0))
                (lz (landmarks ! i) - lz (landmarks ! 0))"

definition avgTipDistance :: "Landmark list \<Rightarrow> real" where
  "avgTipDistance landmarks =
     (tipToWrist landmarks 8 + tipToWrist landmarks 12 +
      tipToWrist landmarks 16 + tipToWrist landmarks 20) / 4"

text \<open>
  Sample hands: wrist and all unlisted landmarks at (0.5, 0.5, 0), the thumb tip at
  (0.3, 0.5, 0), and the four measured fingertips at distance \<open>d\<close> from the wrist.
  \<open>pinchHand\<close> is the hand of the specification's pinch scenario.
\<close>

definition lm :: "real \<Rightarrow> real \<Rightarrow> real \<Rightarrow> Landmark" where
  "lm a b c = \<lparr>lx = a, ly = b, lz = c\<rparr>"

definition pinchHand :: "Landmark list" where
  "pinchHand = (replicate 21 (lm 0.5 0.5 0))[4 := lm 0.5 0.5 0, 8 := lm 0.52 0.51 0]"

definition spreadHand :: "real \<Rightarrow> Landmark list" where
  "spreadHand d = (replicate 21 (lm 0.5 0.5 0))
     [4 := lm 0.3 0.5 0, 8 := lm 0.5 (0.5 + d) 0, 12 := lm 0.5 (0.5 - d) 0,
      16 := lm (0.5 + d) 0.5 0, 20 := lm (0.5 - d) 0.5 0]"

section \<open>Scene choreographer\<close>

subsection \<open>Random numbers\<close>

text \<open>
  \<^verbatim>\<open>Math.random()\<close> is modelled by a fixed sequence \<open>rnd\<close> of reals and a cursor: the
  call that finds the cursor at \<open>k\<close> returns \<open>rnd k\<close> and leaves the cursor at \<open>k + 1\<close>.
  The cursor travels with the scene (type \<open>world\<close>). \<^verbatim>\<open>Math.random()\<close> promises a value
  in the half-open unit interval, which is \<open>rnd_ok\<close>.
\<close>

type_synonym random = "nat \<Rightarrow> real"

definition rnd_ok :: "random \<Rightarrow> bool" where
  "rnd_ok rnd = (\<forall>n. 0 \<le> rnd n \<and> rnd n < 1)"

subsection \<open>The parts of three.js the scene uses\<close>

text \<open>
  \<^verbatim>\<open>Vector3\<close>, \<^verbatim>\<open>Euler\<close> and the transform of an \<^verbatim>\<open>Object3D\<close> (a \<^verbatim>\<open>Mesh\<close>, \<^verbatim>\<open>Group\<close> or
  \<^verbatim>\<open>Points\<close>), with the library functions the scene calls, as three.js defines them.
  Geometry, materials, lights, camera and renderer do not enter any transform and are
  left out.
\<close>

record Vector3 =
  vx :: real
  vy :: real
  vz :: real

record Euler =
  ex :: real
  ey :: real
  ez :: real

record Object3D =
  position :: Vector3
  rotation :: Euler
  scale :: Vector3

definition Vector3_set :: "real \<Rightarrow> real \<Rightarrow> real \<Rightarrow> Vector3" where
  "Vector3_set a b c = \<lparr>vx = a, vy = b, vz = c\<rparr>"

definition Euler_set :: "real \<Rightarrow> real \<Rightarrow> real \<Rightarrow> Euler" where
  "Euler_set a b c = \<lparr>ex = a, ey = b, ez = c\<rparr>"

definition Object3D_new :: Object3D where
  "Object3D_new = \<lparr>position = Vector3_set 0 0 0, rotation = Euler_set 0 0 0,
                    scale = Vector3_set 1 1 1\<rparr>"

text \<open>\<^verbatim>\<open>MathUtils.lerp(x, y, t)\<close>.\<close>

definition MathUtils_lerp :: "real \<Rightarrow> real \<Rightarrow> real \<Rightarrow> real" where
  "MathUtils_lerp a b t = (1 - t) * a + t * b"

text \<open>\<^verbatim>\<open>u.lerp(v, alpha)\<close>: every component moves by \<^verbatim>\<open>(v.c - u.c) * alpha\<close>.\<close>

definition Vector3_lerp :: "Vector3 \<Rightarrow> Vector3 \<Rightarrow> real \<Rightarrow> Vector3" where
  "Vector3_lerp u v alpha =
     \<lparr>vx = vx u + (vx v - vx u) * alpha,
      vy = vy u + (vy v - vy u) * alpha,
      vz = vz u + (vz v - vz u) * alpha\<rparr>"

text \<open>\<^verbatim>\<open>u.addScaledVector(v, s)\<close>.\<close>

definition addScaledVector :: "Vector3 \<Rightarrow> Vector3 \<Rightarrow> real \<Rightarrow> Vector3" where
  "addScaledVector u v c =
     \<lparr>vx = vx u + vx v * c, vy = vy u + vy v * c, vz = vz u + vz v * c\<rparr>"

subsection \<open>Particle\<close>

record Particle =
  mesh :: Object3D
  type :: string
  targetPos :: Vector3
  targetRot :: Euler
  velocity :: Vector3
  originIndex :: nat

text \<open>
  \<^verbatim>\<open>new Particle(mesh, type, index)\<close>: the field initialisers draw the three components
  of \<^verbatim>\<open>velocity\<close> in the order x, y, z.
\<close>

definition Particle_new :: "random \<Rightarrow> nat \<Rightarrow> Object3D \<Rightarrow> string \<Rightarrow> nat \<Rightarrow> nat \<times> Particle" where
  "Particle_new rnd k m ty index =
     (k + 3,
      \<lparr>mesh = m, type = ty,
       targetPos = Vector3_set 0 0 0,
       targetRot = Euler_set 0 0 0,
       velocity = Vector3_set ((rnd k - 0.5) * 0.15) ((rnd (k + 1) - 0.5) * 0.15)
                              ((rnd (k + 2) - 0.5) * 0.15),
       originIndex = index\<rparr>)"

text \<open>\<^verbatim>\<open>Particle.update(mode, focusTarget)\<close>.\<close>

definition Particle_update :: "SceneMode \<Rightarrow> nat option \<Rightarrow> Particle \<Rightarrow> Particle" where
  "Particle_update md focusTarget p =
     (let lerpSpeed = (if md = FOCUS then 0.04 else 0.08);
          m1 = (mesh p)\<lparr>position := Vector3_lerp (position (mesh p)) (targetPos p) lerpSpeed\<rparr>;
          r = rotation m1;
          v = velocity p
      in if md = SCATTER then
           p\<lparr>mesh := m1\<lparr>rotation := \<lparr>ex = ex r + vx v * 2.5, ey = ey r + vy v * 2.5,
                                       ez = ez r + vz v * 2.5\<rparr>\<rparr>\<rparr>
         else if md = FOCUS \<and> focusTarget \<noteq> Some (originIndex p) then
           p\<lparr>mesh := m1\<lparr>position := addScaledVector (position m1) v 0.05,
                        rotation := \<lparr>ex = ex r + vx v * 0.2, ey = ey r + vy v * 0.2,
                                     ez = ez r\<rparr>\<rparr>\<rparr>
         else
           p\<lparr>mesh := m1\<lparr>rotation := \<lparr>ex = MathUtils_lerp (ex r) (ex (targetRot p)) 0.06,
                                       ey = MathUtils_lerp (ey r) (ey (targetRot p)) 0.06,
                                       ez = MathUtils_lerp (ez r) (ez (targetRot p)) 0.06\<rparr>\<rparr>\<rparr>)"

subsection \<open>ChristmasScene\<close>

text \<open>
  The fields of \<^verbatim>\<open>ChristmasScene\<close> that the choreography reads or writes. \<^verbatim>\<open>dust\<close> is
  unset until \<^verbatim>\<open>initDust\<close> has run.
\<close>

record ChristmasScene =
  particles :: "Particle list"
  dust :: "Object3D option"
  mainGroup :: Object3D
  mode :: SceneMode
  focusTargetIdx :: "nat option"

type_synonym world = "nat \<times> ChristmasScene"

text \<open>
  The first half of \<^verbatim>\<open>setMode\<close>: the mode is stored; FOCUS draws a photo particle when
  there is one and otherwise leaves \<^verbatim>\<open>focusTargetIdx\<close> as it is; the other modes clear it.
  \<^verbatim>\<open>photos[Math.floor(Math.random() * photos.length)]\<close> is \<^verbatim>\<open>undefined\<close> outside the
  array, and \<^verbatim>\<open>target.originIndex\<close> then throws.
\<close>

definition setMode_focus :: "random \<Rightarrow> SceneMode \<Rightarrow> world \<Rightarrow> error + world" where
  "setMode_focus rnd md w =
     (case w of (k, s0) \<Rightarrow>
        (let s = s0\<lparr>mode := md\<rparr>
         in if md = FOCUS then
              (let photos = filter (\<lambda>p. type p = ''PHOTO'') (particles s)
               in if length photos > 0 then
                    (case js_index photos \<lfloor>rnd k * real (length photos)\<rfloor> of
                       None \<Rightarrow> Inl TypeError
                     | Some target \<Rightarrow> Inr (k + 1, s\<lparr>focusTargetIdx := Some (originIndex target)\<rparr>))
                  else Inr (k, s))
            else Inr (k, s\<lparr>focusTargetIdx := None\<rparr>)))"

text \<open>
  The callback of \<^verbatim>\<open>this.particles.forEach((p, i) => ...)\<close> in \<^verbatim>\<open>setMode\<close>. \<open>n\<close> is
  \<^verbatim>\<open>this.particles.length\<close>, \<open>focus\<close> is \<^verbatim>\<open>this.focusTargetIdx\<close>, \<open>k\<close> the random cursor.
\<close>

definition layout :: "random \<Rightarrow> SceneMode \<Rightarrow> nat \<Rightarrow> nat option \<Rightarrow> nat \<Rightarrow> nat \<Rightarrow> Particle \<Rightarrow> nat \<times> Particle" where
  "layout rnd md n focus i k p =
     (case md of
        TREE \<Rightarrow>
          (let t = real i / real n;
               maxRadius = 14;
               radius = maxRadius * (1 - t);
               angle = t * 45 * pi
           in (k, p\<lparr>targetPos := Vector3_set (cos angle * radius) (t * 26 - 12) (sin angle * radius),
                    targetRot := Euler_set 0 angle 0,
                    mesh := (mesh p)\<lparr>scale := Vector3_set 1 1 1\<rparr>\<rparr>))
      | SCATTER \<Rightarrow>
          (let radius = 8 + rnd k * 14;
               phi = arccos (- 1 + (2 * real i) / real n);
               theta = sqrt (real n * pi) * phi
           in (k + 1,
               p\<lparr>targetPos := Vector3_set (radius * cos theta * sin phi)
                                          (radius * sin theta * sin phi)
                                          (radius * cos phi),
                 mesh := (mesh p)\<lparr>scale := Vector3_set 1 1 1\<rparr>\<rparr>))
      | FOCUS \<Rightarrow>
          (if Some i = focus then
             (k, p\<lparr>targetPos := Vector3_set 0 2 35,
                   targetRot := Euler_set 0 0 0,
                   mesh := (mesh p)\<lparr>scale := Vector3_set 4.5 4.5 4.5\<rparr>\<rparr>)
           else
             (let angle = rnd k * pi * 2;
                  dist = 30 + rnd (k + 1) * 15
              in (k + 2,
                  p\<lparr>targetPos := Vector3_set (cos angle * dist) (sin angle * dist) (- 15),
                    mesh := (mesh p)\<lparr>scale := Vector3_set 0.4 0.4 0.4\<rparr>\<rparr>))))"

text \<open>The \<^verbatim>\<open>forEach\<close> itself: the particles in order, \<open>i\<close> the index of the first one.\<close>

fun forEach_layout :: "random \<Rightarrow> SceneMode \<Rightarrow> nat \<Rightarrow> nat option \<Rightarrow> nat \<Rightarrow> nat \<Rightarrow> Particle list \<Rightarrow> nat \<times> Particle list" where
  "forEach_layout rnd md n focus i k [] = (k, [])"
| "forEach_layout rnd md n focus i k (p # ps) =
     (case layout rnd md n focus i k p of
        (k1, p1) \<Rightarrow>
          (case forEach_layout rnd md n focus (Suc i) k1 ps of
             (k2, ps1) \<Rightarrow> (k2, p1 # ps1)))"

text \<open>\<^verbatim>\<open>ChristmasScene.setMode\<close>.\<close>

definition setMode :: "random \<Rightarrow> SceneMode \<Rightarrow> world \<Rightarrow> error + world" where
  "setMode rnd md w =
     (case setMode_focus rnd md w of
        Inl e \<Rightarrow> Inl e
      | Inr (k, s) \<Rightarrow>
          (case forEach_layout rnd md (length (particles s)) (focusTargetIdx s) 0 k (particles s) of
             (k1, ps) \<Rightarrow> Inr (k1, s\<lparr>particles := ps\<rparr>)))"

text \<open>
  \<^verbatim>\<open>ChristmasScene.addPhotoToScene\<close>. The frame and the photo plane are children of the
  new group and carry no state of the choreography; the texture is not modelled.
\<close>

definition addPhotoToScene :: "random \<Rightarrow> world \<Rightarrow> error + world" where
  "addPhotoToScene rnd w =
     (case w of (k, s) \<Rightarrow>
        (let group = Object3D_new
         in case Particle_new rnd k group ''PHOTO'' (length (particles s)) of
              (k1, p) \<Rightarrow>
                (let s1 = s\<lparr>particles := particles s @ [p]\<rparr>
                 in setMode rnd (mode s1) (k1, s1))))"

text \<open>\<^verbatim>\<open>ChristmasScene.updateInteraction\<close>.\<close>

definition updateInteraction :: "PalmCenter option \<Rightarrow> ChristmasScene \<Rightarrow> ChristmasScene" where
  "updateInteraction palm s =
     (case palm of
        None \<Rightarrow> s
      | Some c \<Rightarrow>
          (let targetRX = (py c - 0.5) * (- 0.6);
               targetRY = (px c - 0.5) * 0.9;
               g = mainGroup s;
               g1 = g\<lparr>rotation := (rotation g)\<lparr>ex := MathUtils_lerp (ex (rotation g)) targetRX 0.08\<rparr>\<rparr>;
               g2 = g1\<lparr>rotation := (rotation g1)\<lparr>ey := MathUtils_lerp (ey (rotation g1)) targetRY 0.08\<rparr>\<rparr>
           in s\<lparr>mainGroup := g2\<rparr>))"

text \<open>
  \<^verbatim>\<open>ChristmasScene.animate\<close>, one frame: \<open>delta\<close> and \<open>time\<close> are the two readings of the
  clock. Re-arming the frame callback and rendering are not modelled.
\<close>

definition animate :: "real \<Rightarrow> real \<Rightarrow> ChristmasScene \<Rightarrow> ChristmasScene" where
  "animate delta time s =
     (let s1 = s\<lparr>particles := map (Particle_update (mode s) (focusTargetIdx s)) (particles s)\<rparr>
      in case dust s1 of
           None \<Rightarrow> s1
         | Some d \<Rightarrow>
             (let d1 = d\<lparr>rotation := (rotation d)\<lparr>ey := ey (rotation d) + delta * 0.02\<rparr>\<rparr>;
                  d2 = d1\<lparr>position := (position d1)\<lparr>vy := sin (time * 0.4) * 0.8\<rparr>\<rparr>;
                  d3 = d2\<lparr>position := (position d2)\<lparr>vx := cos (time * 0.3) * 0.8\<rparr>\<rparr>
              in s1\<lparr>dust := Some d3\<rparr>))"

subsection \<open>Construction\<close>

text \<open>
  The loop of \<^verbatim>\<open>initParticles\<close>, \<^verbatim>\<open>for (let i = 0; i < totalCount; i++)\<close>. Each round
  draws \<^verbatim>\<open>rnd\<close>, draws once more for the material of a box or a sphere (the material
  itself is not modelled), and builds the particle.
\<close>

function initParticles_loop :: "random \<Rightarrow> nat \<Rightarrow> nat \<Rightarrow> nat \<Rightarrow> Particle list \<Rightarrow> nat \<times> Particle list" where
  "initParticles_loop rnd count i k ps =
     (if i < count then
        (let r = rnd k;
             (k1, ty) = (if r < 0.45 then (k + 2, ''BOX'')
                         else if r < 0.85 then (k + 2, ''SPHERE'')
                         else (k + 1, ''CANDY''))
         in case Particle_new rnd k1 Object3D_new ty i of
              (k2, p) \<Rightarrow> initParticles_loop rnd count (Suc i) k2 (ps @ [p]))
      else (k, ps))"
  by pat_completeness auto
termination
  by (relation "measure (\<lambda>(rnd, count, i, k, ps). count - i)") auto

declare initParticles_loop.simps [simp del]

text \<open>\<^verbatim>\<open>const totalCount = 1500\<close> of \<^verbatim>\<open>initParticles\<close>.\<close>

definition totalCount :: nat where
  "totalCount = 1500"

definition initParticles :: "random \<Rightarrow> world \<Rightarrow> error + world" where
  "initParticles rnd w =
     (case w of (k, s) \<Rightarrow>
        (case initParticles_loop rnd totalCount 0 k (particles s) of
           (k1, ps) \<Rightarrow> setMode rnd TREE (k1, s\<lparr>particles := ps\<rparr>)))"

text \<open>
  \<^verbatim>\<open>initDust\<close>: 2500 points, three draws each, for a position buffer that is not
  modelled; the \<^verbatim>\<open>Points\<close> object starts at the default transform.
\<close>

definition initDust :: "world \<Rightarrow> world" where
  "initDust w = (case w of (k, s) \<Rightarrow> (k + 2500 * 3, s\<lparr>dust := Some Object3D_new\<rparr>))"

definition initPhotoWall :: "random \<Rightarrow> world \<Rightarrow> error + world" where
  "initPhotoWall rnd w = addPhotoToScene rnd w"

text \<open>The fields of a scene as their initialisers leave them, before the constructor body.\<close>

definition emptyScene :: ChristmasScene where
  "emptyScene = \<lparr>particles = [], dust = None, mainGroup = Object3D_new, mode = TREE,
                 focusTargetIdx = None\<rparr>"

text \<open>
  The constructor: \<^verbatim>\<open>initParticles\<close>, \<^verbatim>\<open>initDust\<close>, \<^verbatim>\<open>initPhotoWall\<close> and the first call
  of \<^verbatim>\<open>animate\<close>, whose clock readings are \<open>delta\<close> and \<open>time\<close>.
\<close>

definition ChristmasScene_new :: "random \<Rightarrow> nat \<Rightarrow> real \<Rightarrow> real \<Rightarrow> error + world" where
  "ChristmasScene_new rnd k delta time =
     (case initParticles rnd (k, emptyScene) of
        Inl e \<Rightarrow> Inl e
      | Inr w1 \<Rightarrow>
          (case initPhotoWall rnd (initDust w1) of
             Inl e \<Rightarrow> Inl e
           | Inr (k3, s3) \<Rightarrow> Inr (k3, animate delta time s3)))"

subsection \<open>Runs of the scene\<close>

text \<open>
  What can happen to a constructed scene: a call of one of the three public methods, or
  a frame.
\<close>

datatype event =
    SetMode SceneMode
  | AddPhoto
  | UpdateInteraction "PalmCenter option"
  | Frame real real

fun step :: "random \<Rightarrow> event \<Rightarrow> world \<Rightarrow> error + world" where
  "step rnd (SetMode md) w = setMode rnd md w"
| "step rnd AddPhoto w = addPhotoToScene rnd w"
| "step rnd (UpdateInteraction palm) (k, s) = Inr (k, updateInteraction palm s)"
| "step rnd (Frame delta time) (k, s) = Inr (k, animate delta time s)"

fun run :: "random \<Rightarrow> event list \<Rightarrow> world \<Rightarrow> error + world" where
  "run rnd [] w = Inr w"
| "run rnd (e # es) w = (case step rnd e w of Inl err \<Rightarrow> Inl err | Inr w1 \<Rightarrow> run rnd es w1)"

text \<open>
  The focus target is set only in FOCUS mode, and then it is the \<^verbatim>\<open>originIndex\<close> of a
  photo particle of the scene.
\<close>

definition focus_inv :: "ChristmasScene \<Rightarrow> bool" where
  "focus_inv s =
     (case focusTargetIdx s of
        None \<Rightarrow> True
      | Some j \<Rightarrow> mode s = FOCUS \<and>
                 list_ex (\<lambda>p. type p = ''PHOTO'' \<and> originIndex p = j) (particles s))"

subsection \<open>Random draws of a layout pass\<close>



subsection \<open>The tree layout in the words of the specification\<close>

text \<open>
  The position the specification gives to particle \<open>i\<close> of \<open>n\<close> in TREE mode, for
  constants \<open>maxRadius\<close> and \<open>height\<close>: the height term is \<open>t * height - height / 2\<close>.
\<close>

definition spec_tree_position :: "real \<Rightarrow> real \<Rightarrow> nat \<Rightarrow> nat \<Rightarrow> Vector3" where
  "spec_tree_position maxRadius height i n =
     (let t = real i / real n;
          radius = maxRadius * (1 - t);
          angle = t * 45 * pi
      in \<lparr>vx = cos angle * radius, vy = t * height - height / 2, vz = sin angle * radius\<rparr>)"

subsection \<open>Sample scenes and random sequences\<close>

definition plainParticle :: "string \<Rightarrow> nat \<Rightarrow> Particle" where
  "plainParticle ty i =
     \<lparr>mesh = Object3D_new, type = ty, targetPos = Vector3_set 0 0 0,
      targetRot = Euler_set 0 0 0, velocity = Vector3_set 0 0 0, originIndex = i\<rparr>"

definition boxes :: "nat \<Rightarrow> Particle list" where
  "boxes n = map (plainParticle ''BOX'') [0..<n]"

definition sceneOf :: "Particle list \<Rightarrow> ChristmasScene" where
  "sceneOf ps = \<lparr>particles = ps, dust = None, mainGroup = Object3D_new, mode = TREE,
                 focusTargetIdx = None\<rparr>"


section \<open>Gesture classifier: properties\<close>

lemma js_index_in_range:
  "n < length xs \<Longrightarrow> js_index xs (int n) = Some (xs ! n)"
  by (simp add: js_index_def)

lemma processGestures_full:
  assumes len: "length landmarks = 21"
  shows "processGestures landmarks =
     (if pinchDistance landmarks < 0.05 then Inr FOCUS
      else if avgTipDistance landmarks < 0.25 then Inr TREE
      else if avgTipDistance landmarks > 0.4 then Inr SCATTER
      else Inr TREE)"
proof -
  have idx: "js_index landmarks 4 = Some (landmarks ! 4)"
    "js_index landmarks 8 = Some (landmarks ! 8)"
    "js_index landmarks 0 = Some (landmarks ! 0)"
    "js_index landmarks 12 = Some (landmarks ! 12)"
    "js_index landmarks 16 = Some (landmarks ! 16)"
    "js_index landmarks 20 = Some (landmarks ! 20)"
    using len by (simp_all add: js_index_def)
  show ?thesis
    unfolding processGestures_def idx
    by (simp add: Let_def wristDist_def pinchDistance_def tipToWrist_def avgTipDistance_def
        add.assoc)
qed

text \<open>
  C1. On a 21-point landmark set whose thumb tip (4) and index tip (8) are at Euclidean
  distance below 0.05, \<open>processGestures\<close> returns FOCUS, whatever the other landmarks are.
\<close>

theorem pinch_gives_FOCUS:
  assumes "length landmarks = 21" and "pinchDistance landmarks < 0.05"
  shows "processGestures landmarks = Inr FOCUS"
  using assms by (simp add: processGestures_full)

lemma hypot_less:
  "0 < d \<Longrightarrow> a\<^sup>2 + b\<^sup>2 + c\<^sup>2 < d\<^sup>2 \<Longrightarrow> Math_hypot a b c < d"
  unfolding Math_hypot_def by (rule real_less_lsqrt) auto

lemma hypot_ge:
  "d\<^sup>2 \<le> a\<^sup>2 + b\<^sup>2 + c\<^sup>2 \<Longrightarrow> d \<le> Math_hypot a b c"
  unfolding Math_hypot_def by (rule real_le_rsqrt)

lemma hypot_eq:
  "0 \<le> d \<Longrightarrow> a\<^sup>2 + b\<^sup>2 + c\<^sup>2 = d\<^sup>2 \<Longrightarrow> Math_hypot a b c = d"
  unfolding Math_hypot_def by (simp add: real_sqrt_unique)

lemma pinchHand_length: "length pinchHand = 21"
  by (simp add: pinchHand_def)

lemma pinchHand_distance: "pinchDistance pinchHand < 0.05"
  unfolding pinchDistance_def pinchHand_def lm_def
  by (rule hypot_less) (simp_all add: power2_eq_square)

lemma spreadHand_length: "length (spreadHand d) = 21"
  by (simp add: spreadHand_def)

lemma spreadHand_distance: "0.05 \<le> pinchDistance (spreadHand d)"
proof -
  have "0 \<le> d * d" by simp
  then have "(0.05::real)\<^sup>2 \<le> (0.3 - 0.5)\<^sup>2 + (0.5 - (0.5 + d))\<^sup>2 + (0 - 0)\<^sup>2"
    by (simp add: power2_eq_square)
  then have "0.05 \<le> Math_hypot (0.3 - 0.5) (0.5 - (0.5 + d)) (0 - 0)"
    by (rule hypot_ge)
  then show ?thesis
    by (simp add: pinchDistance_def spreadHand_def lm_def)
qed

lemma spreadHand_tips:
  assumes "0 \<le> d" and "i \<in> {8, 12, 16, 20}"
  shows "tipToWrist (spreadHand d) i = d"
  using assms unfolding tipToWrist_def spreadHand_def lm_def
  by (auto intro!: hypot_eq)

lemma spreadHand_avg: "0 \<le> d \<Longrightarrow> avgTipDistance (spreadHand d) = d"
  by (simp add: avgTipDistance_def spreadHand_tips)

theorem pinch_gives_FOCUS_witness:
  "length pinchHand = 21 \<and> pinchDistance pinchHand < 0.05 \<and>
   processGestures pinchHand = Inr FOCUS"
  using pinch_gives_FOCUS [OF pinchHand_length pinchHand_distance]
    pinchHand_length pinchHand_distance by simp

text \<open>
  C2. On a 21-point landmark set whose pinch distance is at least 0.05, with \<open>avg\<close> the
  mean of the four distances from the fingertips 8, 12, 16, 20 to the wrist (0):
  \<open>avg < 0.25\<close> gives TREE, \<open>avg > 0.40\<close> gives SCATTER, and \<open>avg\<close> in the closed
  interval from 0.25 to 0.40 gives TREE.
\<close>

theorem fist_open_classification:
  assumes "length landmarks = 21" and "0.05 \<le> pinchDistance landmarks"
  shows "(avgTipDistance landmarks < 0.25 \<longrightarrow> processGestures landmarks = Inr TREE) \<and>
         (avgTipDistance landmarks > 0.4 \<longrightarrow> processGestures landmarks = Inr SCATTER) \<and>
         (0.25 \<le> avgTipDistance landmarks \<and> avgTipDistance landmarks \<le> 0.4 \<longrightarrow>
            processGestures landmarks = Inr TREE)"
  using assms by (simp add: processGestures_full)

theorem fist_open_classification_witness:
  "avgTipDistance (spreadHand 0.1) = 0.1 \<and> processGestures (spreadHand 0.1) = Inr TREE \<and>
   avgTipDistance (spreadHand 0.5) = 0.5 \<and> processGestures (spreadHand 0.5) = Inr SCATTER \<and>
   avgTipDistance (spreadHand 0.3) = 0.3 \<and> processGestures (spreadHand 0.3) = Inr TREE \<and>
   avgTipDistance (spreadHand 0.25) = 0.25 \<and> processGestures (spreadHand 0.25) = Inr TREE \<and>
   avgTipDistance (spreadHand 0.4) = 0.4 \<and> processGestures (spreadHand 0.4) = Inr TREE"
  using fist_open_classification [OF spreadHand_length [of "0.1"] spreadHand_distance]
    fist_open_classification [OF spreadHand_length [of "0.5"] spreadHand_distance]
    fist_open_classification [OF spreadHand_length [of "0.3"] spreadHand_distance]
    fist_open_classification [OF spreadHand_length [of "0.25"] spreadHand_distance]
    fist_open_classification [OF spreadHand_length [of "0.4"] spreadHand_distance]
  by (simp add: spreadHand_avg)

text \<open>
  C7. A processed frame without a hand (the detector's result has no landmark list, or
  an empty one) emits mode TREE and no pointer; a processed frame with a 21-point hand
  emits the classifier's mode and, as pointer, the x and y of landmark 9.
\<close>

theorem predict_emits:
  assumes "2 \<le> readyState"
  shows "predict True readyState None =
           Inr (Some \<lparr>gesture_mode = TREE, palmCenter = None\<rparr>) \<and>
         predict True readyState (Some []) =
           Inr (Some \<lparr>gesture_mode = TREE, palmCenter = None\<rparr>) \<and>
         (length landmarks = 21 \<longrightarrow>
            (\<exists>m. processGestures landmarks = Inr m \<and>
                 predict True readyState (Some (landmarks # rest)) =
                   Inr (Some \<lparr>gesture_mode = m,
                              palmCenter = Some \<lparr>px = lx (landmarks ! 9),
                                                 py = ly (landmarks ! 9)\<rparr>\<rparr>)))"
proof -
  have "js_index landmarks 9 = Some (landmarks ! 9)" if "length landmarks = 21"
    using that by (simp add: js_index_def)
  moreover have "\<exists>m. processGestures landmarks = Inr m" if "length landmarks = 21"
    using that by (simp add: processGestures_full)
  ultimately show ?thesis
    using assms by (auto simp: predict_def)
qed

theorem predict_emits_witness:
  "predict True 4 None = Inr (Some \<lparr>gesture_mode = TREE, palmCenter = None\<rparr>) \<and>
   predict True 4 (Some []) = Inr (Some \<lparr>gesture_mode = TREE, palmCenter = None\<rparr>) \<and>
   predict True 4 (Some [pinchHand]) =
     Inr (Some \<lparr>gesture_mode = FOCUS, palmCenter = Some \<lparr>px = 0.5, py = 0.5\<rparr>\<rparr>)"
proof -
  have "(2::nat) \<le> 4" by simp
  from predict_emits [OF this, of pinchHand "[]"]
  have a: "predict True 4 None = Inr (Some \<lparr>gesture_mode = TREE, palmCenter = None\<rparr>)"
    and b: "predict True 4 (Some []) = Inr (Some \<lparr>gesture_mode = TREE, palmCenter = None\<rparr>)"
    and c: "\<exists>m. processGestures pinchHand = Inr m \<and>
              predict True 4 (Some [pinchHand]) =
                Inr (Some \<lparr>gesture_mode = m,
                           palmCenter = Some \<lparr>px = lx (pinchHand ! 9),
                                              py = ly (pinchHand ! 9)\<rparr>\<rparr>)"
    by (simp_all add: pinchHand_length)
  have "processGestures pinchHand = Inr FOCUS"
    using pinchHand_distance by (simp add: processGestures_full pinchHand_length)
  moreover have "lx (pinchHand ! 9) = 0.5" "ly (pinchHand ! 9) = 0.5"
    by (simp_all add: pinchHand_def lm_def)
  ultimately show ?thesis using a b c by auto
qed

section \<open>Scene choreographer: the layout pass\<close>

lemma layout_frame:
  "type (snd (layout rnd md n focus i k p)) = type p"
  "originIndex (snd (layout rnd md n focus i k p)) = originIndex p"
  by (cases md; simp add: layout_def Let_def)+

lemma forEach_layout_Cons:
  "forEach_layout rnd md n focus i k (p # ps) =
     (fst (forEach_layout rnd md n focus (Suc i) (fst (layout rnd md n focus i k p)) ps),
      snd (layout rnd md n focus i k p) #
      snd (forEach_layout rnd md n focus (Suc i) (fst (layout rnd md n focus i k p)) ps))"
  by (simp add: case_prod_beta)

lemma forEach_layout_length:
  "length (snd (forEach_layout rnd md n focus i k ps)) = length ps"
  by (induction ps arbitrary: i k) (simp_all add: case_prod_beta)

lemma forEach_layout_type:
  "map type (snd (forEach_layout rnd md n focus i k ps)) = map type ps"
  by (induction ps arbitrary: i k) (simp_all add: case_prod_beta layout_frame)

lemma forEach_layout_originIndex:
  "map originIndex (snd (forEach_layout rnd md n focus i k ps)) = map originIndex ps"
  by (induction ps arbitrary: i k) (simp_all add: case_prod_beta layout_frame)

lemma forEach_layout_nth:
  assumes c: "\<And>i k p. fst (layout rnd md n focus i k p) = k + c"
    and j: "j < length ps"
  shows "snd (forEach_layout rnd md n focus i k ps) ! j =
           snd (layout rnd md n focus (i + j) (k + c * j) (ps ! j))"
  using j
proof (induction ps arbitrary: i k j)
  case Nil
  then show ?case by simp
next
  case (Cons p ps)
  show ?case
  proof (cases j)
    case 0
    then show ?thesis by (simp add: case_prod_beta)
  next
    case (Suc j')
    then have "j' < length ps" using Cons.prems by simp
    from Cons.IH [OF this, of "Suc i" "k + c"]
    show ?thesis using Suc by (simp add: case_prod_beta c algebra_simps)
  qed
qed


lemma setMode_not_FOCUS:
  assumes "md \<noteq> FOCUS"
  shows "setMode rnd md (k, s) =
     Inr (fst (forEach_layout rnd md (length (particles s)) None 0 k (particles s)),
          s\<lparr>mode := md, focusTargetIdx := None,
            particles := snd (forEach_layout rnd md (length (particles s)) None 0 k (particles s))\<rparr>)"
  using assms by (simp add: setMode_def setMode_focus_def case_prod_beta)

lemma setMode_FOCUS_no_photos:
  assumes "filter (\<lambda>p. type p = ''PHOTO'') (particles s) = []"
  shows "setMode rnd FOCUS (k, s) =
     Inr (fst (forEach_layout rnd FOCUS (length (particles s)) (focusTargetIdx s) 0 k (particles s)),
          s\<lparr>mode := FOCUS,
            particles := snd (forEach_layout rnd FOCUS (length (particles s)) (focusTargetIdx s) 0 k (particles s))\<rparr>)"
  using assms by (simp add: setMode_def setMode_focus_def case_prod_beta)

lemma layout_TREE_cursor: "fst (layout rnd TREE n focus i k p) = k + 0"
  by (simp add: layout_def Let_def)

lemma layout_SCATTER_cursor: "fst (layout rnd SCATTER n focus i k p) = k + 1"
  by (simp add: layout_def Let_def)

lemma layout_FOCUS_None_cursor: "fst (layout rnd FOCUS n None i k p) = k + 2"
  by (simp add: layout_def Let_def)

lemma sphere_point: "Math_hypot (r * cos th * sin ph) (r * sin th * sin ph) (r * cos ph) = \<bar>r\<bar>"
proof -
  have "(r * cos th * sin ph)\<^sup>2 + (r * sin th * sin ph)\<^sup>2 + (r * cos ph)\<^sup>2 = r\<^sup>2"
    by (simp add: power_mult_distrib sin_squared_eq algebra_simps)
  then show ?thesis by (simp add: Math_hypot_def)
qed

lemma setMode_TREE_nth:
  assumes "i < length (particles s)" and "setMode rnd TREE (k, s) = Inr (k', s')"
  shows "particles s' ! i = snd (layout rnd TREE (length (particles s)) None i k (particles s ! i))"
proof -
  have "snd (forEach_layout rnd TREE (length (particles s)) None 0 k (particles s)) ! i =
        snd (layout rnd TREE (length (particles s)) None (0 + i) (k + 0 * i) (particles s ! i))"
    using assms(1) by (intro forEach_layout_nth layout_TREE_cursor)
  then show ?thesis using assms(2) by (auto simp: setMode_not_FOCUS)
qed

lemma boxes_scene [simp]:
  "length (particles (sceneOf (boxes n))) = n"
  "focusTargetIdx (sceneOf ps) = None"
  "filter (\<lambda>p. type p = ''PHOTO'') (particles (sceneOf (boxes n))) = []"
  by (simp_all add: sceneOf_def boxes_def plainParticle_def filter_empty_conv)

lemma angle_45_half: "cos (45 * pi / 2) = 0" "sin (45 * pi / 2) = 1"
proof -
  have e: "45 * pi / 2 = pi / 2 + 22 * pi" by simp
  show "cos (45 * pi / 2) = 0" unfolding e by (subst cos_add) simp
  show "sin (45 * pi / 2) = 1" unfolding e by (subst sin_add) simp
qed

lemma rnd_ok_half: "rnd_ok (\<lambda>_. 1 / 2)"
  by (simp add: rnd_ok_def)


section \<open>Scene choreographer: setMode\<close>

lemma random_index:
  assumes "0 \<le> r" "r < 1" "0 < n"
  shows "0 \<le> \<lfloor>r * real n\<rfloor> \<and> \<lfloor>r * real n\<rfloor> < int n"
proof -
  have "r * real n < real n" using assms by simp
  then have "\<lfloor>r * real n\<rfloor> < int n" by (simp add: floor_less_iff)
  moreover have "0 \<le> r * real n" using assms by simp
  ultimately show ?thesis by simp
qed

lemma js_index_mem:
  assumes "js_index xs i = Some x"
  shows "x \<in> set xs"
proof -
  from assms have i: "0 \<le> i" "i < int (length xs)" and x: "x = xs ! nat i"
    by (auto simp: js_index_def split: if_splits)
  from i have "nat i < length xs" by linarith
  then show ?thesis using x by simp
qed

lemma js_index_SomeD:
  assumes "js_index xs i = Some x"
  shows "nat i < length xs" and "x = xs ! nat i"
proof -
  from assms have i: "0 \<le> i" "i < int (length xs)" and x: "x = xs ! nat i"
    by (auto simp: js_index_def split: if_splits)
  from i show "nat i < length xs" by linarith
  from x show "x = xs ! nat i" .
qed

lemma setMode_focus_cases:
  assumes "setMode_focus rnd md (k, s) = Inr (k', s')"
  shows "s' = s\<lparr>mode := md, focusTargetIdx := focusTargetIdx s'\<rparr> \<and>
         (md \<noteq> FOCUS \<longrightarrow> focusTargetIdx s' = None \<and> k' = k) \<and>
         (md = FOCUS \<longrightarrow>
            (if filter (\<lambda>p. type p = ''PHOTO'') (particles s) = []
             then focusTargetIdx s' = focusTargetIdx s \<and> k' = k
             else k' = k + 1 \<and>
                  (\<exists>target \<in> set (particles s). type target = ''PHOTO'' \<and>
                     js_index (filter (\<lambda>p. type p = ''PHOTO'') (particles s))
                        \<lfloor>rnd k * real (length (filter (\<lambda>p. type p = ''PHOTO'') (particles s)))\<rfloor> = Some target \<and>
                     focusTargetIdx s' = Some (originIndex target))))"
proof (cases "md = FOCUS")
  case False
  then show ?thesis using assms by (auto simp: setMode_focus_def)
next
  case True
  let ?photos = "filter (\<lambda>p. type p = ''PHOTO'') (particles s)"
  show ?thesis
  proof (cases "?photos = []")
    case e: True
    then show ?thesis using assms True by (auto simp: setMode_focus_def)
  next
    case ne: False
    from assms True ne obtain target where
      t: "js_index ?photos \<lfloor>rnd k * real (length ?photos)\<rfloor> = Some target"
      and r: "k' = k + 1" "s' = s\<lparr>mode := FOCUS, focusTargetIdx := Some (originIndex target)\<rparr>"
      by (auto simp: setMode_focus_def Let_def split: option.splits)
    from t have "target \<in> set ?photos"
      by (rule js_index_mem)
    then have "target \<in> set (particles s)" "type target = ''PHOTO''" by auto
    then show ?thesis using True ne t r by auto
  qed
qed

lemma setMode_focus_total:
  assumes "rnd_ok rnd"
  shows "\<exists>k' s'. setMode_focus rnd md (k, s) = Inr (k', s')"
proof (cases "md = FOCUS \<and> filter (\<lambda>p. type p = ''PHOTO'') (particles s) \<noteq> []")
  case False
  then show ?thesis by (auto simp: setMode_focus_def Let_def)
next
  case True
  let ?photos = "filter (\<lambda>p. type p = ''PHOTO'') (particles s)"
  have "0 < length ?photos" using True by simp
  moreover have "0 \<le> rnd k" "rnd k < 1" using assms by (simp_all add: rnd_ok_def)
  ultimately have "0 \<le> \<lfloor>rnd k * real (length ?photos)\<rfloor> \<and>
      \<lfloor>rnd k * real (length ?photos)\<rfloor> < int (length ?photos)"
    by (intro random_index)
  then have "js_index ?photos \<lfloor>rnd k * real (length ?photos)\<rfloor> \<noteq> None"
    by (simp add: js_index_def)
  then show ?thesis using True by (auto simp: setMode_focus_def Let_def)
qed

lemma setMode_total:
  assumes "rnd_ok rnd"
  shows "\<exists>k' s'. setMode rnd md (k, s) = Inr (k', s')"
proof -
  from setMode_focus_total [OF assms] obtain k1 s1 where
    "setMode_focus rnd md (k, s) = Inr (k1, s1)" by blast
  then show ?thesis by (simp add: setMode_def case_prod_beta)
qed

lemma setMode_focus_fields:
  assumes "setMode_focus rnd md (k, s) = Inr (k', s')"
  shows "particles s' = particles s" and "mode s' = md"
    and "mainGroup s' = mainGroup s" and "dust s' = dust s"
  using assms
  by (auto simp: setMode_focus_def Let_def split: if_splits option.splits)

lemma setMode_result:
  assumes "setMode rnd md (k, s) = Inr (k', s')"
  obtains k1 s1 where "setMode_focus rnd md (k, s) = Inr (k1, s1)"
    and "k' = fst (forEach_layout rnd md (length (particles s)) (focusTargetIdx s1) 0 k1 (particles s))"
    and "s' = s1\<lparr>particles := snd (forEach_layout rnd md (length (particles s)) (focusTargetIdx s1) 0 k1 (particles s))\<rparr>"
proof -
  from assms obtain k1 s1 where f: "setMode_focus rnd md (k, s) = Inr (k1, s1)"
    by (auto simp: setMode_def split: sum.splits)
  from assms f setMode_focus_fields(1) [OF f] show ?thesis
    by (intro that [of k1 s1]) (auto simp: setMode_def case_prod_beta)
qed

lemma setMode_frame:
  assumes "setMode rnd md (k, s) = Inr (k', s')"
  shows "map type (particles s') = map type (particles s)"
    and "map originIndex (particles s') = map originIndex (particles s)"
    and "mode s' = md"
    and "mainGroup s' = mainGroup s" and "dust s' = dust s"
proof -
  from assms obtain k1 s1 where f: "setMode_focus rnd md (k, s) = Inr (k1, s1)"
    and s': "s' = s1\<lparr>particles := snd (forEach_layout rnd md (length (particles s)) (focusTargetIdx s1) 0 k1 (particles s))\<rparr>"
    by (rule setMode_result)
  note fs = setMode_focus_fields [OF f]
  show "map type (particles s') = map type (particles s)"
    by (simp add: s' forEach_layout_type)
  show "map originIndex (particles s') = map originIndex (particles s)"
    by (simp add: s' forEach_layout_originIndex)
  show "mode s' = md" by (simp add: s' fs)
  show "mainGroup s' = mainGroup s" by (simp add: s' fs)
  show "dust s' = dust s" by (simp add: s' fs)
qed

lemma setMode_focusTargetIdx:
  assumes "setMode rnd md (k, s) = Inr (k', s')"
  shows "(md \<noteq> FOCUS \<longrightarrow> focusTargetIdx s' = None) \<and>
         (md = FOCUS \<longrightarrow>
            (if filter (\<lambda>p. type p = ''PHOTO'') (particles s) = []
             then focusTargetIdx s' = focusTargetIdx s
             else \<exists>target \<in> set (particles s). type target = ''PHOTO'' \<and>
                     focusTargetIdx s' = Some (originIndex target)))"
proof -
  from assms obtain k1 s1 where f: "setMode_focus rnd md (k, s) = Inr (k1, s1)"
    and s': "s' = s1\<lparr>particles := snd (forEach_layout rnd md (length (particles s)) (focusTargetIdx s1) 0 k1 (particles s))\<rparr>"
    by (rule setMode_result)
  have "focusTargetIdx s' = focusTargetIdx s1" by (simp add: s')
  then show ?thesis using setMode_focus_cases [OF f] by (auto split: if_splits)
qed

lemma photo_ex_cong:
  fixes ps ps' :: "Particle list"
  assumes "map type ps' = map type ps" and "map originIndex ps' = map originIndex ps"
  shows "list_ex (\<lambda>p. type p = a \<and> originIndex p = j) ps' =
         list_ex (\<lambda>p. type p = a \<and> originIndex p = j) ps"
proof -
  have h: "list_ex (\<lambda>p. type p = a \<and> originIndex p = j) qs \<longleftrightarrow>
        (a, j) \<in> set (zip (map type qs) (map originIndex qs))" for qs :: "Particle list"
    by (induction qs) auto
  show ?thesis by (simp only: h assms)
qed

lemma setMode_focus_inv:
  assumes "setMode rnd md (k, s) = Inr (k', s')" and "focus_inv s"
  shows "focus_inv s'"
proof (cases "focusTargetIdx s'")
  case None
  then show ?thesis by (simp add: focus_inv_def)
next
  case (Some j)
  note fr = setMode_frame [OF assms(1)]
  from Some setMode_focusTargetIdx [OF assms(1)] have md: "md = FOCUS" by auto
  have "list_ex (\<lambda>p. type p = ''PHOTO'' \<and> originIndex p = j) (particles s)"
  proof (cases "filter (\<lambda>p. type p = ''PHOTO'') (particles s) = []")
    case True
    with Some md setMode_focusTargetIdx [OF assms(1)] have "focusTargetIdx s = Some j" by simp
    then show ?thesis using assms(2) by (simp add: focus_inv_def)
  next
    case False
    with Some md setMode_focusTargetIdx [OF assms(1)] show ?thesis
      by (auto simp: list_ex_iff)
  qed
  then have "list_ex (\<lambda>p. type p = ''PHOTO'' \<and> originIndex p = j) (particles s')"
    by (simp add: photo_ex_cong [OF fr(1) fr(2)])
  then show ?thesis using Some md fr(3) by (simp add: focus_inv_def)
qed








lemma photo_indices_cong:
  fixes ps ps' :: "Particle list"
  assumes "map type ps' = map type ps" and "map originIndex ps' = map originIndex ps"
  shows "map originIndex (filter (\<lambda>p. type p = a) ps') =
         map originIndex (filter (\<lambda>p. type p = a) ps)"
  using assms
proof (induction ps arbitrary: ps')
  case Nil
  then show ?case by simp
next
  case (Cons p ps)
  from Cons.prems(1) obtain q qs where ps': "ps' = q # qs" by (cases ps') simp_all
  from Cons.prems have h: "type q = type p" "originIndex q = originIndex p"
    and t: "map type qs = map type ps" "map originIndex qs = map originIndex ps"
    by (simp_all add: ps')
  from Cons.IH [OF t] h show ?case by (simp add: ps')
qed




section \<open>Scene choreographer: photos, frames and construction\<close>

lemma addPhotoToScene_frame:
  assumes "addPhotoToScene rnd (k, s) = Inr (k', s')"
  shows "map originIndex (particles s') = map originIndex (particles s) @ [length (particles s)]"
    and "map type (particles s') = map type (particles s) @ [''PHOTO'']"
    and "mode s' = mode s"
proof -
  define p where "p = snd (Particle_new rnd k Object3D_new ''PHOTO'' (length (particles s)))"
  define s1 where "s1 = s\<lparr>particles := particles s @ [p]\<rparr>"
  have "addPhotoToScene rnd (k, s) = setMode rnd (mode s1) (k + 3, s1)"
    by (simp add: addPhotoToScene_def Particle_new_def p_def s1_def Let_def)
  with assms have r: "setMode rnd (mode s1) (k + 3, s1) = Inr (k', s')" by simp
  have p: "originIndex p = length (particles s)" "type p = ''PHOTO''"
    by (simp_all add: p_def Particle_new_def)
  note fr = setMode_frame [OF r]
  show "map originIndex (particles s') = map originIndex (particles s) @ [length (particles s)]"
    using fr(2) p by (simp add: s1_def)
  show "map type (particles s') = map type (particles s) @ [''PHOTO'']"
    using fr(1) p by (simp add: s1_def)
  show "mode s' = mode s" using fr(3) by (simp add: s1_def)
qed

lemma addPhotoToScene_total:
  assumes "rnd_ok rnd"
  shows "\<exists>k' s'. addPhotoToScene rnd (k, s) = Inr (k', s')"
proof -
  define p where "p = snd (Particle_new rnd k Object3D_new ''PHOTO'' (length (particles s)))"
  define s1 where "s1 = s\<lparr>particles := particles s @ [p]\<rparr>"
  have "addPhotoToScene rnd (k, s) = setMode rnd (mode s1) (k + 3, s1)"
    by (simp add: addPhotoToScene_def Particle_new_def p_def s1_def Let_def)
  then show ?thesis using setMode_total [OF assms, of "mode s1" "k + 3" s1] by simp
qed

lemma addPhotoToScene_focus_inv:
  assumes "addPhotoToScene rnd (k, s) = Inr (k', s')" and "focus_inv s"
  shows "focus_inv s'"
proof -
  define p where "p = snd (Particle_new rnd k Object3D_new ''PHOTO'' (length (particles s)))"
  define s1 where "s1 = s\<lparr>particles := particles s @ [p]\<rparr>"
  have "addPhotoToScene rnd (k, s) = setMode rnd (mode s1) (k + 3, s1)"
    by (simp add: addPhotoToScene_def Particle_new_def p_def s1_def Let_def)
  then have r: "setMode rnd (mode s1) (k + 3, s1) = Inr (k', s')"
    using assms(1) by simp
  have "focus_inv s1"
    using assms(2) by (auto simp: focus_inv_def s1_def split: option.splits)
  with r show ?thesis by (rule setMode_focus_inv)
qed

lemma Particle_update_frame:
  "type (Particle_update md f p) = type p"
  "originIndex (Particle_update md f p) = originIndex p"
  by (simp_all add: Particle_update_def Let_def)

lemma animate_fields:
  "mode (animate delta time s) = mode s"
  "focusTargetIdx (animate delta time s) = focusTargetIdx s"
  "map type (particles (animate delta time s)) = map type (particles s)"
  "map originIndex (particles (animate delta time s)) = map originIndex (particles s)"
  by (simp_all add: animate_def Let_def Particle_update_frame split: option.splits)

lemma animate_focus_inv:
  assumes "focus_inv s"
  shows "focus_inv (animate delta time s)"
proof (cases "focusTargetIdx s")
  case None
  then show ?thesis by (simp add: focus_inv_def animate_fields)
next
  case (Some j)
  then show ?thesis using assms
    by (simp add: focus_inv_def animate_fields photo_ex_cong [OF animate_fields(3,4)])
qed

lemma updateInteraction_focus_inv:
  assumes "focus_inv s"
  shows "focus_inv (updateInteraction palm s)"
  using assms
  by (cases palm) (simp_all add: updateInteraction_def focus_inv_def Let_def split: option.splits)

lemma step_focus_inv:
  assumes "step rnd e (k, s) = Inr (k', s')" and "focus_inv s"
  shows "focus_inv s'"
proof (cases e)
  case (SetMode md)
  then show ?thesis using assms setMode_focus_inv by auto
next
  case AddPhoto
  then show ?thesis using assms addPhotoToScene_focus_inv by auto
next
  case (UpdateInteraction palm)
  then show ?thesis using assms updateInteraction_focus_inv by auto
next
  case (Frame delta time)
  then show ?thesis using assms animate_focus_inv by auto
qed

lemma run_focus_inv:
  assumes "run rnd es (k, s) = Inr (k', s')" and "focus_inv s"
  shows "focus_inv s'"
  using assms
proof (induction es arbitrary: k s)
  case Nil
  then show ?case by simp
next
  case (Cons e es)
  from Cons.prems(1) obtain k1 s1 where
    st: "step rnd e (k, s) = Inr (k1, s1)" and rn: "run rnd es (k1, s1) = Inr (k', s')"
    by (auto split: sum.splits)
  from st Cons.prems(2) have "focus_inv s1" by (rule step_focus_inv)
  with rn show ?case by (rule Cons.IH)
qed

lemma initParticles_focusTargetIdx:
  assumes "initParticles rnd (k, s) = Inr (k1, s1)"
  shows "focusTargetIdx s1 = None"
proof -
  define L where "L = initParticles_loop rnd totalCount 0 k (particles s)"
  from assms have "setMode rnd TREE (fst L, s\<lparr>particles := snd L\<rparr>) = Inr (k1, s1)"
    by (simp add: initParticles_def Let_def case_prod_beta L_def)
  from setMode_focusTargetIdx [OF this] show ?thesis by simp
qed

lemma initDust_eq: "initDust (k, s) = (k + 7500, s\<lparr>dust := Some Object3D_new\<rparr>)"
  by (simp add: initDust_def)

lemma ChristmasScene_new_cases:
  assumes "ChristmasScene_new rnd k delta time = Inr (k', s')"
  obtains k1 s1 s3 where "initParticles rnd (k, emptyScene) = Inr (k1, s1)"
    and "addPhotoToScene rnd (k1 + 7500, s1\<lparr>dust := Some Object3D_new\<rparr>) = Inr (k', s3)"
    and "s' = animate delta time s3"
proof -
  from assms obtain w1 where a0: "initParticles rnd (k, emptyScene) = Inr w1"
    and b0: "(case initPhotoWall rnd (initDust w1) of
                Inl e \<Rightarrow> Inl e
              | Inr (k3, s3) \<Rightarrow> Inr (k3, animate delta time s3)) = Inr (k', s')"
    unfolding ChristmasScene_new_def
    by (cases "initParticles rnd (k, emptyScene)") simp_all
  obtain k1 s1 where w1: "w1 = (k1, s1)" by (cases w1)
  from b0 obtain w3 where b1: "initPhotoWall rnd (initDust w1) = Inr w3"
    and c0: "(case w3 of (k3, s3) \<Rightarrow> Inr (k3, animate delta time s3)) = (Inr (k', s') :: error + world)"
    by (cases "initPhotoWall rnd (initDust w1)") simp_all
  obtain k3 s3 where w3: "w3 = (k3, s3)" by (cases w3)
  from c0 have c: "s' = animate delta time s3" "k3 = k'" by (simp_all add: w3)
  from b1 have "addPhotoToScene rnd (k1 + 7500, s1\<lparr>dust := Some Object3D_new\<rparr>) = Inr (k', s3)"
    unfolding initPhotoWall_def w1 w3 initDust_eq c(2) .
  from a0 [unfolded w1] this c(1) show ?thesis by (rule that)
qed

lemma constructor_focus_inv:
  assumes "ChristmasScene_new rnd k delta time = Inr (k', s')"
  shows "focus_inv s'"
proof -
  from assms obtain k1 s1 s3 where a: "initParticles rnd (k, emptyScene) = Inr (k1, s1)"
    and b: "addPhotoToScene rnd (k1 + 7500, s1\<lparr>dust := Some Object3D_new\<rparr>) = Inr (k', s3)"
    and c: "s' = animate delta time s3"
    by (rule ChristmasScene_new_cases)
  from a have "focusTargetIdx s1 = None" by (rule initParticles_focusTargetIdx)
  then have i: "focus_inv (s1\<lparr>dust := Some Object3D_new\<rparr>)"
    by (simp add: focus_inv_def)
  from b i have "focus_inv s3" by (rule addPhotoToScene_focus_inv)
  then show ?thesis unfolding c by (rule animate_focus_inv)
qed

lemma step_total:
  assumes "rnd_ok rnd"
  shows "\<exists>w'. step rnd e w = Inr w'"
proof -
  obtain k s where w: "w = (k, s)" by (cases w)
  show ?thesis
  proof (cases e)
    case (SetMode md)
    then show ?thesis using setMode_total [OF assms, of md k s] by (simp add: w)
  next
    case AddPhoto
    then show ?thesis using addPhotoToScene_total [OF assms, of k s] by (simp add: w)
  next
    case (UpdateInteraction palm)
    then show ?thesis by (simp add: w)
  next
    case (Frame delta time)
    then show ?thesis by (simp add: w)
  qed
qed

lemma run_total:
  assumes "rnd_ok rnd"
  shows "\<exists>w'. run rnd es w = Inr w'"
proof (induction es arbitrary: w)
  case Nil
  show ?case by simp
next
  case (Cons e es)
  from step_total [OF assms] obtain w1 where "step rnd e w = Inr w1" by blast
  then show ?case using Cons.IH [of w1] by simp
qed

lemma initParticles_loop_indices:
  assumes "i \<le> count"
  shows "map originIndex (snd (initParticles_loop rnd count i k ps)) =
           map originIndex ps @ [i..<count] \<and>
         filter (\<lambda>p. type p = ''PHOTO'') (snd (initParticles_loop rnd count i k ps)) =
           filter (\<lambda>p. type p = ''PHOTO'') ps"
  using assms
proof (induction rnd count i k ps rule: initParticles_loop.induct)
  case (1 rnd count i k ps)
  show ?case
  proof (cases "i < count")
    case False
    with "1.prems" have "i = count" by simp
    then show ?thesis by (simp add: initParticles_loop.simps)
  next
    case True
    define r where "r = rnd k"
    define kt where "kt = (if r < 0.45 then (k + 2, ''BOX'')
                         else if r < 0.85 then (k + 2, ''SPHERE'')
                         else (k + 1, ''CANDY''))"
    define p where "p = snd (Particle_new rnd (fst kt) Object3D_new (snd kt) i)"
    have ty: "type p \<noteq> ''PHOTO''" "originIndex p = i"
      by (simp_all add: p_def kt_def Particle_new_def)
    have unf: "initParticles_loop rnd count i k ps =
               initParticles_loop rnd count (Suc i) (fst kt + 3) (ps @ [p])"
      using True
      by (subst initParticles_loop.simps)
         (simp add: Let_def case_prod_beta r_def kt_def p_def Particle_new_def)
    have ih: "map originIndex (snd (initParticles_loop rnd count (Suc i) (fst kt + 3) (ps @ [p]))) =
           map originIndex (ps @ [p]) @ [Suc i..<count] \<and>
         filter (\<lambda>p. type p = ''PHOTO'') (snd (initParticles_loop rnd count (Suc i) (fst kt + 3) (ps @ [p]))) =
           filter (\<lambda>p. type p = ''PHOTO'') (ps @ [p])"
    proof (rule "1.IH" [OF True])
      show "r = rnd k" by (rule r_def)
      show "kt = (if r < 0.45 then (k + 2, ''BOX'')
                         else if r < 0.85 then (k + 2, ''SPHERE'')
                         else (k + 1, ''CANDY''))" by (rule kt_def)
      show "(fst kt, snd kt) = kt" by simp
      show "(fst kt + 3, p) = Particle_new rnd (fst kt) Object3D_new (snd kt) i"
        by (simp add: p_def Particle_new_def)
      show "Suc i \<le> count" using True by simp
    qed
    show ?thesis unfolding unf using ih ty True
      by (simp add: upt_conv_Cons)
  qed
qed

lemma ChristmasScene_new_total:
  assumes "rnd_ok rnd"
  shows "\<exists>k' s'. ChristmasScene_new rnd k delta time = Inr (k', s')"
proof -
  define L where "L = initParticles_loop rnd totalCount 0 k (particles emptyScene)"
  have "initParticles rnd (k, emptyScene) = setMode rnd TREE (fst L, emptyScene\<lparr>particles := snd L\<rparr>)"
    by (simp add: initParticles_def Let_def case_prod_beta L_def)
  with setMode_total [OF assms] obtain k1 s1 where
    a: "initParticles rnd (k, emptyScene) = Inr (k1, s1)" by metis
  from addPhotoToScene_total [OF assms] obtain k3 s3 where
    b: "addPhotoToScene rnd (k1 + 7500, s1\<lparr>dust := Some Object3D_new\<rparr>) = Inr (k3, s3)" by blast
  show ?thesis
    by (simp add: ChristmasScene_new_def a initPhotoWall_def initDust_eq b)
qed

lemma photo_indices_snoc:
  fixes ps ps' :: "Particle list"
  assumes "map type ps' = map type ps @ [''PHOTO'']"
    and "map originIndex ps' = map originIndex ps @ [n]"
  shows "map originIndex (filter (\<lambda>p. type p = ''PHOTO'') ps') =
         map originIndex (filter (\<lambda>p. type p = ''PHOTO'') ps) @ [n]"
  using assms
proof (induction ps arbitrary: ps')
  case Nil
  from Nil(1) obtain q qs where ps': "ps' = q # qs" by (cases ps') simp_all
  from Nil have "qs = []" "type q = ''PHOTO''" "originIndex q = n"
    by (simp_all add: ps')
  then show ?case by (simp add: ps')
next
  case (Cons p ps)
  from Cons.prems(1) obtain q qs where ps': "ps' = q # qs" by (cases ps') simp_all
  from Cons.prems have h: "type q = type p" "originIndex q = originIndex p"
    and t: "map type qs = map type ps @ [''PHOTO'']" "map originIndex qs = map originIndex ps @ [n]"
    by (simp_all add: ps')
  from Cons.IH [OF t] h show ?case by (simp add: ps')
qed

lemma no_photos_cong:
  fixes ps ps' :: "Particle list"
  assumes "map type ps' = map type ps" and "filter (\<lambda>p. type p = ''PHOTO'') ps = []"
  shows "filter (\<lambda>p. type p = ''PHOTO'') ps' = []"
proof -
  have h: "filter (\<lambda>p. type p = ''PHOTO'') qs = [] \<longleftrightarrow> ''PHOTO'' \<notin> set (map type qs)"
    for qs :: "Particle list"
    by (induction qs) simp_all
  from assms(2) have "''PHOTO'' \<notin> set (map type ps)" unfolding h .
  then have "''PHOTO'' \<notin> set (map type ps')" unfolding assms(1) .
  then show ?thesis unfolding h .
qed

lemma setMode_FOCUS_target:
  assumes "setMode rnd FOCUS (k, s) = Inr (k', s')"
    and "filter (\<lambda>p. type p = ''PHOTO'') (particles s) \<noteq> []"
  shows "focusTargetIdx s' =
           Some (map originIndex (filter (\<lambda>p. type p = ''PHOTO'') (particles s)) !
                 nat \<lfloor>rnd k * real (length (filter (\<lambda>p. type p = ''PHOTO'') (particles s)))\<rfloor>)"
proof -
  let ?photos = "filter (\<lambda>p. type p = ''PHOTO'') (particles s)"
  from assms(1) obtain k1 s1 where f: "setMode_focus rnd FOCUS (k, s) = Inr (k1, s1)"
    and s': "s' = s1\<lparr>particles := snd (forEach_layout rnd FOCUS (length (particles s)) (focusTargetIdx s1) 0 k1 (particles s))\<rparr>"
    by (rule setMode_result)
  from setMode_focus_cases [OF f] assms(2) obtain target where
    t: "js_index ?photos \<lfloor>rnd k * real (length ?photos)\<rfloor> = Some target"
    and ft: "focusTargetIdx s1 = Some (originIndex target)"
    by auto
  note d = js_index_SomeD [OF t]
  have "originIndex target = map originIndex ?photos ! nat \<lfloor>rnd k * real (length ?photos)\<rfloor>"
    using d by simp
  then show ?thesis using ft by (simp add: s')
qed

lemma initParticles_result:
  assumes "initParticles rnd (k, emptyScene) = Inr (k1, s1)"
  shows "map originIndex (particles s1) = [0..<totalCount]"
    and "filter (\<lambda>p. type p = ''PHOTO'') (particles s1) = []"
proof -
  define L where "L = initParticles_loop rnd totalCount 0 k []"
  from assms have r: "setMode rnd TREE (fst L, emptyScene\<lparr>particles := snd L\<rparr>) = Inr (k1, s1)"
    by (simp add: initParticles_def case_prod_beta L_def emptyScene_def)
  have l: "map originIndex (snd L) = [0..<totalCount]"
    "filter (\<lambda>p. type p = ''PHOTO'') (snd L) = []"
    using initParticles_loop_indices [where i = 0 and count = totalCount and rnd = rnd and k = k and ps = "[]"]
    by (simp_all add: L_def)
  note fr = setMode_frame [OF r]
  show "map originIndex (particles s1) = [0..<totalCount]" using fr(2) l(1) by simp
  have "map type (particles s1) = map type (snd L)" using fr(1) by simp
  then show "filter (\<lambda>p. type p = ''PHOTO'') (particles s1) = []"
    using l(2) by (rule no_photos_cong)
qed

lemma ChristmasScene_new_result:
  assumes "ChristmasScene_new rnd k delta time = Inr (k', s')"
  shows "length (particles s') = Suc totalCount"
    and "map originIndex (filter (\<lambda>p. type p = ''PHOTO'') (particles s')) = [totalCount]"
proof -
  from assms obtain k1 s1 s3 where a: "initParticles rnd (k, emptyScene) = Inr (k1, s1)"
    and b: "addPhotoToScene rnd (k1 + 7500, s1\<lparr>dust := Some Object3D_new\<rparr>) = Inr (k', s3)"
    and c: "s' = animate delta time s3"
    by (rule ChristmasScene_new_cases)
  note ra = initParticles_result [OF a]
  have len: "length (particles s1) = totalCount"
    using arg_cong [OF ra(1), of length] by simp
  note fb = addPhotoToScene_frame [OF b]
  have t3: "map type (particles s3) = map type (particles s1) @ [''PHOTO'']"
    using fb(2) by simp
  have i3: "map originIndex (particles s3) = map originIndex (particles s1) @ [totalCount]"
    using fb(1) len by simp
  have p3: "map originIndex (filter (\<lambda>p. type p = ''PHOTO'') (particles s3)) = [totalCount]"
    using photo_indices_snoc [OF t3 i3] ra(2) by simp
  have "length (particles s3) = Suc totalCount"
    using arg_cong [OF i3, of length] len by simp
  then show "length (particles s') = Suc totalCount"
    unfolding c using arg_cong [OF animate_fields(3), of length delta time s3] by simp
  have "map originIndex (filter (\<lambda>p. type p = ''PHOTO'') (particles (animate delta time s3))) =
        map originIndex (filter (\<lambda>p. type p = ''PHOTO'') (particles s3))"
    using animate_fields(3,4) by (rule photo_indices_cong)
  then show "map originIndex (filter (\<lambda>p. type p = ''PHOTO'') (particles s')) = [totalCount]"
    unfolding c by (simp only: p3)
qed







section \<open>Scene choreographer: properties\<close>

text \<open>
  C3 (as amended). For every particle index \<open>i\<close> below the particle count \<open>n\<close>,
  \<open>setMode TREE\<close> returns and sets that particle's target position to
  (cos(angle) * radius, t * 26 - 12, sin(angle) * radius) with t = i / n,
  radius = 14 * (1 - t) and angle = t * 45 * pi, and its target rotation to (0, angle, 0).
  The height term is \<open>t * 26 - 12\<close>: the helix runs from -12 at the base towards +14, and
  is not of the form \<open>t * height - height / 2\<close>
\<close>

theorem tree_layout:
  assumes "i < length (particles s)"
  shows "\<exists>k' s'. setMode rnd TREE (k, s) = Inr (k', s') \<and>
           (let n = length (particles s);
                t = real i / real n;
                radius = 14 * (1 - t);
                angle = t * 45 * pi;
                p = particles s' ! i
            in targetPos p = \<lparr>vx = cos angle * radius, vy = t * 26 - 12, vz = sin angle * radius\<rparr> \<and>
               targetRot p = \<lparr>ex = 0, ey = angle, ez = 0\<rparr>)"
proof -
  have "snd (forEach_layout rnd TREE (length (particles s)) None 0 k (particles s)) ! i =
        snd (layout rnd TREE (length (particles s)) None (0 + i) (k + 0 * i) (particles s ! i))"
    using assms by (intro forEach_layout_nth layout_TREE_cursor)
  then show ?thesis
    by (simp add: setMode_not_FOCUS layout_def Let_def Vector3_set_def Euler_set_def)
qed

theorem tree_layout_witness:
  "(2::nat) < length (particles (sceneOf (boxes 4))) \<and>
   (\<exists>k' s'. setMode (\<lambda>_. 0) TREE (0, sceneOf (boxes 4)) = Inr (k', s') \<and>
      targetPos (particles s' ! 2) = \<lparr>vx = 0, vy = 1, vz = 7\<rparr> \<and>
      targetRot (particles s' ! 2) = \<lparr>ex = 0, ey = 45 * pi / 2, ez = 0\<rparr>)"
proof -
  have h: "(2::nat) < length (particles (sceneOf (boxes 4)))" by simp
  from tree_layout [OF h, of "\<lambda>_. 0" 0] show ?thesis
    by (simp add: Let_def angle_45_half)
qed

text \<open>
  The position in the words of the specification fails on the code for every choice of
  \<open>maxRadius\<close> and \<open>height\<close>: at index 2 of 4 particles it asks for the height 0, and the
  code gives 1.
\<close>

theorem tree_height_counterexample:
  "\<not> (\<exists>maxRadius height k' s'.
         setMode (\<lambda>_. 0) TREE (0, sceneOf (boxes 4)) = Inr (k', s') \<and>
         targetPos (particles s' ! 2) = spec_tree_position maxRadius height 2 4)"
proof
  assume "\<exists>maxRadius height k' s'.
         setMode (\<lambda>_. 0) TREE (0, sceneOf (boxes 4)) = Inr (k', s') \<and>
         targetPos (particles s' ! 2) = spec_tree_position maxRadius height 2 4"
  then obtain maxRadius height k' s' where
    r: "setMode (\<lambda>_. 0) TREE (0, sceneOf (boxes 4)) = Inr (k', s')"
    and t: "targetPos (particles s' ! 2) = spec_tree_position maxRadius height 2 4"
    by blast
  have "(2::nat) < length (particles (sceneOf (boxes 4)))" by simp
  from setMode_TREE_nth [OF this r]
  have "vy (targetPos (particles s' ! 2)) = 1"
    by (simp add: layout_def Let_def Vector3_set_def)
  moreover have "vy (spec_tree_position maxRadius height 2 4) = 0"
    by (simp add: spec_tree_position_def Let_def)
  ultimately show False using t by simp
qed

text \<open>
  C8. For every particle index \<open>i\<close> below the particle count \<open>n\<close>,
  \<open>setMode SCATTER\<close> returns and puts that particle's target position on the sphere of
  radius \<open>radius\<close> around the origin, at polar angle phi = arccos(-1 + 2 i / n) and azimuth
  theta = sqrt(n * pi) * phi, where \<open>radius\<close> is 8 plus 14 times the particle's own random
  draw, hence in the band from 8 to 22 whatever \<open>i\<close> is
\<close>

theorem scatter_layout:
  assumes "i < length (particles s)" and "rnd_ok rnd"
  shows "\<exists>k' s'. setMode rnd SCATTER (k, s) = Inr (k', s') \<and>
           (let n = length (particles s);
                phi = arccos (- 1 + 2 * real i / real n);
                theta = sqrt (real n * pi) * phi;
                radius = 8 + rnd (k + i) * 14;
                p = particles s' ! i
            in 8 \<le> radius \<and> radius < 22 \<and>
               targetPos p = \<lparr>vx = radius * cos theta * sin phi,
                              vy = radius * sin theta * sin phi,
                              vz = radius * cos phi\<rparr> \<and>
               Math_hypot (vx (targetPos p)) (vy (targetPos p)) (vz (targetPos p)) = radius)"
proof -
  have r: "0 \<le> rnd (k + i)" "rnd (k + i) < 1"
    using assms(2) by (simp_all add: rnd_ok_def)
  have "snd (forEach_layout rnd SCATTER (length (particles s)) None 0 k (particles s)) ! i =
        snd (layout rnd SCATTER (length (particles s)) None (0 + i) (k + 1 * i) (particles s ! i))"
    using assms(1) by (intro forEach_layout_nth layout_SCATTER_cursor)
  then show ?thesis using r
    by (simp add: setMode_not_FOCUS layout_def Let_def Vector3_set_def sphere_point)
qed

theorem scatter_layout_witness:
  "(1::nat) < length (particles (sceneOf (boxes 2))) \<and> rnd_ok (\<lambda>_. 1 / 2) \<and>
   (\<exists>k' s'. setMode (\<lambda>_. 1 / 2) SCATTER (0, sceneOf (boxes 2)) = Inr (k', s') \<and>
      targetPos (particles s' ! 1) =
        \<lparr>vx = 15 * cos (sqrt (2 * pi) * (pi / 2)), vy = 15 * sin (sqrt (2 * pi) * (pi / 2)), vz = 0\<rparr> \<and>
      Math_hypot (vx (targetPos (particles s' ! 1))) (vy (targetPos (particles s' ! 1)))
        (vz (targetPos (particles s' ! 1))) = 15)"
proof -
  have h: "(1::nat) < length (particles (sceneOf (boxes 2)))" by simp
  have r: "rnd_ok (\<lambda>_. 1 / 2)" by (simp add: rnd_ok_def)
  from scatter_layout [OF h r, of 0] show ?thesis using r
    by (simp add: Let_def)
qed

text \<open>
  C6. In a scene without photo particles whose focus target is consistent
  (\<open>focus_inv\<close>, which holds in every state the program reaches, see C10),
  \<open>setMode FOCUS\<close> returns without an exception for every random sequence, the focus
  target is unset afterwards, and every particle gets the target of the non-focused
  branch: a point of the background ring at depth -15, whose angle and distance
  (between 30 and 45) are its two random draws, and the scale 0.4
\<close>

theorem focus_without_photos:
  assumes "filter (\<lambda>p. type p = ''PHOTO'') (particles s) = []"
    and "focus_inv s"
  shows "\<exists>k' s'. setMode rnd FOCUS (k, s) = Inr (k', s') \<and>
           focusTargetIdx s' = None \<and> mode s' = FOCUS \<and>
           length (particles s') = length (particles s) \<and>
           (\<forall>i < length (particles s).
              let angle = rnd (k + 2 * i) * pi * 2;
                  dist = 30 + rnd (k + 2 * i + 1) * 15;
                  p = particles s' ! i
              in targetPos p = \<lparr>vx = cos angle * dist, vy = sin angle * dist, vz = - 15\<rparr> \<and>
                 scale (mesh p) = \<lparr>vx = 0.4, vy = 0.4, vz = 0.4\<rparr> \<and>
                 targetRot p = targetRot (particles s ! i))"
proof -
  from assms have none: "focusTargetIdx s = None"
    by (cases "focusTargetIdx s") (auto simp: focus_inv_def list_ex_iff filter_empty_conv)
  have "snd (forEach_layout rnd FOCUS (length (particles s)) None 0 k (particles s)) ! i =
        snd (layout rnd FOCUS (length (particles s)) None (0 + i) (k + 2 * i) (particles s ! i))"
    if "i < length (particles s)" for i
    using that by (intro forEach_layout_nth layout_FOCUS_None_cursor)
  then show ?thesis using assms(1) none
    by (simp add: setMode_FOCUS_no_photos forEach_layout_length layout_def Let_def Vector3_set_def)
qed

theorem focus_without_photos_witness:
  "filter (\<lambda>p. type p = ''PHOTO'') (particles (sceneOf (boxes 2))) = [] \<and>
   focus_inv (sceneOf (boxes 2)) \<and>
   (\<exists>k' s'. setMode (\<lambda>_. 1 / 2) FOCUS (0, sceneOf (boxes 2)) = Inr (k', s') \<and>
      focusTargetIdx s' = None \<and>
      map targetPos (particles s') =
        [\<lparr>vx = - (75 / 2), vy = 0, vz = - 15\<rparr>, \<lparr>vx = - (75 / 2), vy = 0, vz = - 15\<rparr>])"
proof -
  have a: "filter (\<lambda>p. type p = ''PHOTO'') (particles (sceneOf (boxes 2))) = []" by simp
  have b: "focus_inv (sceneOf (boxes 2))" by (simp add: focus_inv_def)
  from focus_without_photos [OF a b, of "\<lambda>_. 1 / 2" 0] obtain k' s' where
    r: "setMode (\<lambda>_. 1 / 2) FOCUS (0, sceneOf (boxes 2)) = Inr (k', s')"
    and f: "focusTargetIdx s' = None" and l: "length (particles s') = 2"
    and t: "\<forall>i<2. targetPos (particles s' ! i) = \<lparr>vx = - (75 / 2), vy = 0, vz = - 15\<rparr>"
    by (auto simp: Let_def)
  from l t have "map targetPos (particles s') =
        [\<lparr>vx = - (75 / 2), vy = 0, vz = - 15\<rparr>, \<lparr>vx = - (75 / 2), vy = 0, vz = - 15\<rparr>]"
    by (intro nth_equalityI) (auto simp: less_Suc_eq numeral_2_eq_2)
  with a b r f show ?thesis by (intro conjI exI [of _ k'] exI [of _ s'])
qed

text \<open>
  C9. \<open>updateInteraction\<close> with an absent pointer returns the scene
  unchanged. With a pointer \<open>c\<close> it changes nothing but the rotation of the main group:
  the x rotation moves by the fraction 0.08 towards -0.6 * (y - 0.5), the y rotation by
  the fraction 0.08 towards 0.9 * (x - 0.5), and the z rotation stays
\<close>

theorem updateInteraction_rotation:
  "updateInteraction None s = s \<and>
   (let s' = updateInteraction (Some c) s;
        r = rotation (mainGroup s);
        r' = rotation (mainGroup s')
    in ex r' = ex r + 0.08 * ((- 0.6) * (py c - 0.5) - ex r) \<and>
       ey r' = ey r + 0.08 * (0.9 * (px c - 0.5) - ey r) \<and>
       ez r' = ez r \<and>
       s' = s\<lparr>mainGroup := (mainGroup s)\<lparr>rotation := r'\<rparr>\<rparr>)"
  by (simp add: updateInteraction_def Let_def MathUtils_lerp_def field_simps)




text \<open>
  C5. On a scene of \<open>n\<close> particles \<open>addPhotoToScene\<close> returns; the
  \<open>originIndex\<close> of the \<open>n\<close> particles that were there is unchanged, in order, and the new
  last particle is a photo with \<open>originIndex\<close> \<open>n\<close>
\<close>

theorem addPhotoToScene_indices:
  assumes "rnd_ok rnd"
  shows "\<exists>k' s'. addPhotoToScene rnd (k, s) = Inr (k', s') \<and>
           map originIndex (particles s') =
             map originIndex (particles s) @ [length (particles s)] \<and>
           map type (particles s') = map type (particles s) @ [''PHOTO'']"
proof -
  from addPhotoToScene_total [OF assms] obtain k' s' where
    r: "addPhotoToScene rnd (k, s) = Inr (k', s')" by blast
  from r addPhotoToScene_frame(1,2) [OF r] show ?thesis by blast
qed

theorem addPhotoToScene_indices_witness:
  "rnd_ok (\<lambda>_. 1 / 2) \<and>
   (\<exists>k' s'. addPhotoToScene (\<lambda>_. 1 / 2) (0, sceneOf (boxes 2)) = Inr (k', s') \<and>
      map originIndex (particles s') = [0, 1, 2] \<and>
      map type (particles s') = [''BOX'', ''BOX'', ''PHOTO''])"
  using addPhotoToScene_indices [OF rnd_ok_half, of 0 "sceneOf (boxes 2)"] rnd_ok_half
  by (simp add: sceneOf_def boxes_def plainParticle_def numeral_2_eq_2)

text \<open>
  C10. In every state that a constructed scene reaches by calls of
  \<open>setMode\<close>, \<open>addPhotoToScene\<close>, \<open>updateInteraction\<close> and frames, the focus target is
  unset whenever the mode is not FOCUS, and when it is set it is the \<open>originIndex\<close> of a
  photo particle of the scene
\<close>

theorem focus_target_invariant:
  assumes "ChristmasScene_new rnd k0 delta time = Inr w0" and "run rnd es w0 = Inr (k, s)"
  shows "(mode s \<noteq> FOCUS \<longrightarrow> focusTargetIdx s = None) \<and>
         (\<forall>j. focusTargetIdx s = Some j \<longrightarrow>
              (\<exists>p \<in> set (particles s). type p = ''PHOTO'' \<and> originIndex p = j))"
proof -
  obtain k1 s1 where w0: "w0 = (k1, s1)" by (cases w0)
  from assms(1) have "focus_inv s1" unfolding w0 by (rule constructor_focus_inv)
  with assms(2) have "focus_inv s" unfolding w0 by (rule run_focus_inv)
  then show ?thesis
    by (auto simp: focus_inv_def list_ex_iff split: option.splits)
qed

theorem focus_target_invariant_witness:
  "(\<exists>w0 k s. ChristmasScene_new (\<lambda>_. 1 / 2) 0 0 0 = Inr w0 \<and>
      run (\<lambda>_. 1 / 2) [AddPhoto, SetMode FOCUS, Frame (1 / 60) (1 / 60), UpdateInteraction None] w0
        = Inr (k, s) \<and>
      mode s = FOCUS \<and> focusTargetIdx s = Some 1501 \<and>
      (\<exists>p \<in> set (particles s). type p = ''PHOTO'' \<and> originIndex p = 1501)) \<and>
   (\<exists>w0 k s. ChristmasScene_new (\<lambda>_. 1 / 2) 0 0 0 = Inr w0 \<and>
      run (\<lambda>_. 1 / 2) [SetMode FOCUS, SetMode SCATTER] w0 = Inr (k, s) \<and>
      mode s = SCATTER \<and> focusTargetIdx s = None)"
proof -
  let ?r = "\<lambda>_::nat. 1 / 2 :: real"
  let ?P = "\<lambda>p::Particle. type p = ''PHOTO''"
  from ChristmasScene_new_total [OF rnd_ok_half] obtain k0 s0 where
    c: "ChristmasScene_new ?r 0 0 0 = Inr (k0, s0)" by blast
  note c0 = ChristmasScene_new_result [OF c]
  from addPhotoToScene_total [OF rnd_ok_half] obtain ka sa where
    a: "addPhotoToScene ?r (k0, s0) = Inr (ka, sa)" by blast
  note fa = addPhotoToScene_frame [OF a]
  have pa: "map originIndex (filter ?P (particles sa)) = [totalCount, Suc totalCount]"
    using photo_indices_snoc [OF fa(2) fa(1)] c0 by simp
  have la: "length (filter ?P (particles sa)) = 2"
    using arg_cong [OF pa, of length] by simp
  from setMode_total [OF rnd_ok_half] obtain kb sb where
    b: "setMode ?r FOCUS (ka, sa) = Inr (kb, sb)" by blast
  have ne: "filter ?P (particles sa) \<noteq> []" using la by auto
  have fb: "focusTargetIdx sb = Some 1501"
    using setMode_FOCUS_target [OF b ne] by (simp add: pa la totalCount_def)
  have mb: "mode sb = FOCUS" using setMode_frame(3) [OF b] .
  define s where "s = updateInteraction None (animate (1 / 60) (1 / 60) sb)"
  have r: "run ?r [AddPhoto, SetMode FOCUS, Frame (1 / 60) (1 / 60), UpdateInteraction None] (k0, s0)
       = Inr (kb, s)"
    by (simp add: a b s_def)
  have ms: "mode s = FOCUS" "focusTargetIdx s = Some 1501"
    by (simp_all add: s_def updateInteraction_def animate_fields mb fb)
  from focus_target_invariant [OF c r] ms(2)
  have "\<exists>p \<in> set (particles s). type p = ''PHOTO'' \<and> originIndex p = 1501" by simp
  with c r ms have first: "\<exists>w0 k s. ChristmasScene_new ?r 0 0 0 = Inr w0 \<and>
      run ?r [AddPhoto, SetMode FOCUS, Frame (1 / 60) (1 / 60), UpdateInteraction None] w0
        = Inr (k, s) \<and>
      mode s = FOCUS \<and> focusTargetIdx s = Some 1501 \<and>
      (\<exists>p \<in> set (particles s). type p = ''PHOTO'' \<and> originIndex p = 1501)"
    by blast
  from setMode_total [OF rnd_ok_half] obtain kc sc where
    f: "setMode ?r FOCUS (k0, s0) = Inr (kc, sc)" by blast
  from setMode_total [OF rnd_ok_half] obtain kd sd where
    d: "setMode ?r SCATTER (kc, sc) = Inr (kd, sd)" by blast
  have r2: "run ?r [SetMode FOCUS, SetMode SCATTER] (k0, s0) = Inr (kd, sd)"
    by (simp add: f d)
  have md: "mode sd = SCATTER" using setMode_frame(3) [OF d] .
  with focus_target_invariant [OF c r2] have "focusTargetIdx sd = None" by simp
  with c r2 md have "\<exists>w0 k s. ChristmasScene_new ?r 0 0 0 = Inr w0 \<and>
      run ?r [SetMode FOCUS, SetMode SCATTER] w0 = Inr (k, s) \<and>
      mode s = SCATTER \<and> focusTargetIdx s = None"
    by blast
  with first show ?thesis by (rule conjI)
qed

end
